theory Spec2Isabelle
  imports Complex_Main "HOL-Library.Sublist" "HOL-Library.Word"
begin

section \<open>Deck-Primer-Automation: text measurement, word wrap and page composition\<close>

text \<open>
  A shallow embedding of \<^verbatim>\<open>Deck-Primer-Automation.py\<close>. Font scales, line spacings and
  the paragraph spacing are Python floats in the source; they are modelled as rationals, so
  every sum, product and comparison is the exact one (the source's values are multiples of
  a half or short decimals, and the fixed decrement 0.5 is exact in binary floating point).
  Pixel sizes, margins and coordinates are Python integers, modelled as \<open>int\<close>.

  OpenCV and the regular-expression library are outside the repository: their functions are
  the fields of a \<open>backend\<close> record that every operation takes as its first argument.
\<close>

subsection \<open>Python primitives\<close>

text \<open>\<^verbatim>\<open>int(x)\<close> on a float truncates towards zero.\<close>

definition py_int :: "rat \<Rightarrow> int" where
  "py_int x = (if 0 \<le> x then \<lfloor>x\<rfloor> else \<lceil>x\<rceil>)"

text \<open>
  \<^verbatim>\<open>s.split(sep)\<close> with an explicit separator: the non-overlapping occurrences of \<open>sep\<close>
  are found from the left, and the pieces between them are returned (an empty string gives
  one empty piece). Python raises ValueError for an empty separator; callers check that
  before they split, here the empty separator never matches.
\<close>

fun py_split :: "string \<Rightarrow> string \<Rightarrow> string list" where
  "py_split sep [] = [[]]"
| "py_split sep (c # cs) =
     (if sep \<noteq> [] \<and> prefix sep (c # cs)
      then [] # py_split sep (drop (length sep - 1) cs)
      else (case py_split sep cs of
              [] \<Rightarrow> [[c]]
            | w # ws \<Rightarrow> (c # w) # ws))"

text \<open>\<^verbatim>\<open>sep.join(xs)\<close>.\<close>

fun py_join :: "string \<Rightarrow> string list \<Rightarrow> string" where
  "py_join sep [] = []"
| "py_join sep [x] = x"
| "py_join sep (x # y # ys) = x @ sep @ py_join sep (y # ys)"

text \<open>
  \<^verbatim>\<open>str.isspace\<close> on the ASCII range: tab, line feed, vertical tab, form feed, carriage
  return, the four separators 0x1c to 0x1f, and the space. \<^verbatim>\<open>s.lstrip()\<close> drops the
  leading run of such characters.
\<close>

definition py_isspace :: "char \<Rightarrow> bool" where
  "py_isspace c = (of_char c \<in> {9, 10, 11, 12, 13, 28, 29, 30, 31, 32 :: nat})"

definition lstrip :: "string \<Rightarrow> string" where
  "lstrip s = dropWhile py_isspace s"

abbreviation newline :: char where
  "newline \<equiv> CHR 0x0A"

abbreviation space :: char where
  "space \<equiv> CHR '' ''"

subsection \<open>Errors, images and the external backend\<close>

datatype error = ValueError | RecursionError | UnboundLocalError | ReError

type_synonym pixel = "8 word \<times> 8 word \<times> 8 word"

text \<open>
  A numpy image of shape \<open>(rows, cols, 3)\<close>: \<open>shape[0]\<close> is \<open>rows\<close>, \<open>shape[1]\<close> is
  \<open>cols\<close>, and \<open>pix r c\<close> is the pixel in row \<open>r\<close> and column \<open>c\<close>.
\<close>

record image =
  rows :: nat
  cols :: nat
  pix :: "nat \<Rightarrow> nat \<Rightarrow> pixel"

type_synonym color = "int \<times> int \<times> int"

text \<open>
  The external functions. \<open>getTextSize text scale thickness\<close> is
  \<^verbatim>\<open>cv2.getTextSize(text, font, scale, thickness)[0]\<close>, a pair (width, height); the font is
  the same constant in every call. \<open>cv_line\<close>, \<open>cv_circle\<close> and \<open>cv_putText\<close> return the
  image they have drawn on. \<open>re_sub pattern repl s\<close> is \<^verbatim>\<open>re.sub\<close>, which raises for a
  pattern that does not compile; \<open>re_search pattern s\<close> is
  \<^verbatim>\<open>re.search(pattern, s) is not None\<close>. \<open>make_qr url size\<close> is the QR code of
  \<open>url\<close> as an RGB array, resized by \<^verbatim>\<open>cv2.resize\<close> to \<open>(size, size)\<close>.
\<close>

record backend =
  getTextSize :: "string \<Rightarrow> rat \<Rightarrow> int \<Rightarrow> int \<times> int"
  cv_line :: "image \<Rightarrow> int \<times> int \<Rightarrow> int \<times> int \<Rightarrow> color \<Rightarrow> int \<Rightarrow> image"
  cv_circle :: "image \<Rightarrow> int \<times> int \<Rightarrow> int \<Rightarrow> color \<Rightarrow> int \<Rightarrow> image"
  cv_putText :: "image \<Rightarrow> string \<Rightarrow> int \<times> int \<Rightarrow> rat \<Rightarrow> color \<Rightarrow> int \<Rightarrow> bool \<Rightarrow> image"
  re_sub :: "string \<Rightarrow> string \<Rightarrow> string \<Rightarrow> error + string"
  re_search :: "string \<Rightarrow> string \<Rightarrow> bool"
  make_qr :: "string \<Rightarrow> int \<Rightarrow> image"

subsection \<open>The log\<close>

text \<open>
  A log line is an f-string over a few values; an entry records which line it is and the
  values it prints.
\<close>

datatype log_entry =
    ReachedMinimum string
  | ExceededMaximum string rat
  | CalculatingBoxes string
  | SavingQR string
  | PointsSmaller string
  | FrontOverflow string
  | BackOverflow
  | SavingImages string
  | Processing string
  | ImagesProcessed nat

text \<open>
  \<^verbatim>\<open>calculate_text_bb(self, image, max_bb_size, min_font_scale, logs = [])\<close> has a mutable
  default argument: one list object, created when the function is defined, that every call
  without a \<open>logs\<close> argument shares. The store holds the two list objects a call can
  write to, the list the caller owns and the default list, and \<open>logs_ref\<close> says which
  of them the parameter \<open>logs\<close> is bound to.
\<close>

datatype logs_ref = Caller | Default

record log_store =
  caller_logs :: "log_entry list"
  default_logs :: "log_entry list"

definition append_log :: "logs_ref \<Rightarrow> log_entry \<Rightarrow> log_store \<Rightarrow> log_store" where
  "append_log r e st =
     (case r of
        Caller \<Rightarrow> st\<lparr>caller_logs := caller_logs st @ [e]\<rparr>
      | Default \<Rightarrow> st\<lparr>default_logs := default_logs st @ [e]\<rparr>)"

definition read_logs :: "logs_ref \<Rightarrow> log_store \<Rightarrow> log_entry list" where
  "read_logs r st = (case r of Caller \<Rightarrow> caller_logs st | Default \<Rightarrow> default_logs st)"

subsection \<open>TextBox\<close>

record textbox =
  name :: string
  tb_text :: string
  font_scale :: rat
  font_width :: int
  font_color :: color
  left_margin :: int
  right_margin :: int
  line_spacing :: rat
  paragraph_break :: bool
  circle :: bool
  circle_size :: int
  paragraph_spacing :: rat
  bold_words :: "string list"
  delim :: string
  splitter :: string
  line_height :: int
  height :: int
  width :: int
  bounding_box :: "int \<times> int"
  paragraphs :: "string list list"

text \<open>
  The constructor: the optional attributes have the defaults of \<^verbatim>\<open>__init__\<close>, the
  calculated attributes start at zero.
\<close>

definition TextBox ::
  "string \<Rightarrow> string \<Rightarrow> rat \<Rightarrow> int \<Rightarrow> color \<Rightarrow> int \<Rightarrow> int \<Rightarrow> rat \<Rightarrow> textbox" where
  "TextBox nm txt scale fw col lm rm ls =
     \<lparr>name = nm, tb_text = txt, font_scale = scale, font_width = fw, font_color = col,
      left_margin = lm, right_margin = rm, line_spacing = ls,
      paragraph_break = False, circle = True, circle_size = 25, paragraph_spacing = 3 / 2,
      bold_words = [], delim = '' '', splitter = [],
      line_height = 0, height = 0, width = 0, bounding_box = (0, 0), paragraphs = []\<rparr>"

subsection \<open>Measurement: word wrap\<close>

text \<open>
  The word as the loop measures and appends it (lines 107 to 114): leading whitespace
  stripped, a leading space unless it is the first word, the splitter appended unless it is
  the last word or the delimiter is a space.
\<close>

definition decorate :: "textbox \<Rightarrow> nat \<Rightarrow> nat \<Rightarrow> string \<Rightarrow> string" where
  "decorate tb n ix w =
     (let w1 = lstrip w;
          w2 = (if ix \<noteq> 0 then space # w1 else w1)
      in if int ix \<noteq> int n - 1 \<and> delim tb \<noteq> '' '' then w2 @ splitter tb else w2)"

text \<open>
  The loop over the words of one paragraph (lines 106 to 128). \<open>n\<close> is
  \<^verbatim>\<open>len(text_list)\<close>, \<open>ix\<close> the index of the next word; the state is the text built so far
  and the running X position.
\<close>

fun wrap_words ::
  "backend \<Rightarrow> image \<Rightarrow> textbox \<Rightarrow> nat \<Rightarrow> nat \<Rightarrow> string list \<Rightarrow> string \<times> int \<Rightarrow> string \<times> int" where
  "wrap_words be img tb n ix [] (full_text, current_X) = (full_text, current_X)"
| "wrap_words be img tb n ix (w # ws) (full_text, current_X) =
     (let word = decorate tb n ix w;
          word_size = getTextSize be word (font_scale tb) (font_width tb)
      in if current_X + fst word_size \<le> int (cols img) - right_margin tb
         then wrap_words be img tb n (Suc ix) ws (full_text @ word, current_X + fst word_size)
         else wrap_words be img tb n (Suc ix) ws
                (full_text @ newline # tl word,
                 left_margin tb
                   + fst (getTextSize be (tl word) (font_scale tb) (font_width tb))))"

text \<open>One paragraph (lines 102 to 130): the text with its line feeds.\<close>

definition wrap_paragraph :: "backend \<Rightarrow> image \<Rightarrow> textbox \<Rightarrow> string \<Rightarrow> string" where
  "wrap_paragraph be img tb paragraph_raw =
     (let text_list = py_split (delim tb) paragraph_raw
      in fst (wrap_words be img tb (length text_list) 0 text_list ([], left_margin tb)))"

subsection \<open>Measurement: height and width\<close>

text \<open>
  The loop over the lines of one paragraph (lines 140 to 148); \<open>m\<close> is
  \<^verbatim>\<open>len(paragraph)\<close>, \<open>j\<close> the index of the next line, the state is (height, width).
\<close>

fun measure_lines ::
  "backend \<Rightarrow> textbox \<Rightarrow> int \<Rightarrow> nat \<Rightarrow> nat \<Rightarrow> string list \<Rightarrow> int \<times> int \<Rightarrow> int \<times> int" where
  "measure_lines be tb sh m j [] (h, w) = (h, w)"
| "measure_lines be tb sh m j (line # ls) (h, w) =
     (let line_size = getTextSize be line (font_scale tb) (font_width tb);
          h1 = h + snd line_size;
          h2 = (if int j \<noteq> int m - 1
                then h1 + py_int (of_int sh * line_spacing tb) else h1);
          w1 = (if fst line_size > w then fst line_size else w)
      in measure_lines be tb sh m (Suc j) ls (h2, w1))"

text \<open>The loop over the paragraphs (lines 136 to 148); \<open>i\<close> is the paragraph's index.\<close>

fun measure_paragraphs ::
  "backend \<Rightarrow> textbox \<Rightarrow> int \<Rightarrow> nat \<Rightarrow> string list list \<Rightarrow> int \<times> int \<Rightarrow> int \<times> int" where
  "measure_paragraphs be tb sh i [] (h, w) = (h, w)"
| "measure_paragraphs be tb sh i (p # ps) (h, w) =
     (let h1 = (if i \<noteq> 0
                then h + py_int (of_int sh * (paragraph_spacing tb * line_spacing tb))
                else h)
      in measure_paragraphs be tb sh (Suc i) ps
           (measure_lines be tb sh (length p) 0 p (h1, w)))"

subsection \<open>Measurement: one pass and the auto-fit recursion\<close>

text \<open>
  Lines 81 to 151 of \<^verbatim>\<open>calculate_text_bb\<close>: one measurement at the current scale. The
  left margin is shifted for a bulleted block and stays shifted; height and width are
  added to what the block already holds. \<^verbatim>\<open>split\<close> raises ValueError for an empty
  delimiter.
\<close>

definition measure_pass :: "backend \<Rightarrow> image \<Rightarrow> textbox \<Rightarrow> error + textbox" where
  "measure_pass be img tb =
     (let space_size = getTextSize be '' '' (font_scale tb) (font_width tb);
          tb1 = tb\<lparr>line_height := snd space_size\<rparr>;
          tb2 = (if paragraph_break tb1
                 then tb1\<lparr>left_margin := left_margin tb1 + circle_size tb1 + fst space_size\<rparr>
                 else tb1);
          paragraphs_raw = (if paragraph_break tb2
                            then py_split [CHR 0x5C, CHR ''p''] (tb_text tb2)
                            else [tb_text tb2])
      in if delim tb2 = [] then Inl ValueError
         else
           (let paragraphs_text = map (wrap_paragraph be img tb2) paragraphs_raw;
                tb3 = tb2\<lparr>paragraphs := map (py_split [newline]) paragraphs_text\<rparr>;
                hw = measure_paragraphs be tb3 (snd space_size) 0 (paragraphs tb3)
                       (height tb3, width tb3);
                tb4 = tb3\<lparr>height := fst hw, width := snd hw\<rparr>
            in Inr (tb4\<lparr>bounding_box := (width tb4 + 100, height tb4 + 80)\<rparr>)))"

text \<open>
  \<^verbatim>\<open>calculate_text_bb\<close>. The first argument after the backend is the number of nested
  calls the interpreter still allows: Python raises RecursionError when it is used up. The
  recursive call of line 167 passes no \<open>logs\<close>, so inside it \<open>logs\<close> is the default
  list; its return value is dropped, and the outer call returns its own \<open>logs\<close>.
  The result is the block and the store; the list the call returns is
  \<open>read_logs r\<close> of that store.
\<close>

fun calculate_text_bb ::
  "backend \<Rightarrow> nat \<Rightarrow> image \<Rightarrow> int \<Rightarrow> rat \<Rightarrow> logs_ref \<Rightarrow> textbox \<times> log_store
     \<Rightarrow> error + textbox \<times> log_store" where
  "calculate_text_bb be 0 img max_bb_size min_font_scale r (tb, st) = Inl RecursionError"
| "calculate_text_bb be (Suc depth) img max_bb_size min_font_scale r (tb, st) =
     (case measure_pass be img tb of
        Inl e \<Rightarrow> Inl e
      | Inr tb1 \<Rightarrow>
          if font_scale tb1 = min_font_scale
          then Inr (tb1, append_log r (ReachedMinimum (name tb1)) st)
          else if snd (bounding_box tb1) > max_bb_size
          then
            (let scale = font_scale tb1 - 1 / 2;
                 st1 = append_log r (ExceededMaximum (name tb1) scale) st;
                 tb2 = tb1\<lparr>font_scale := scale, font_width := \<lceil>scale * 3\<rceil>,
                           left_margin := left_margin tb, height := 0, width := 0\<rparr>
             in calculate_text_bb be depth img max_bb_size min_font_scale Default (tb2, st1))
          else Inr (tb1, st))"

subsection \<open>Sequencing of fallible steps\<close>

definition and_then :: "error + 'a \<Rightarrow> ('a \<Rightarrow> error + 'b) \<Rightarrow> error + 'b" where
  "and_then m f = (case m of Inl e \<Rightarrow> Inl e | Inr x \<Rightarrow> f x)"

subsection \<open>Placement\<close>

text \<open>The pattern \<^verbatim>\<open>~\w+|\w+~\<close> of line 216.\<close>

definition bold_marker_pattern :: string where
  "bold_marker_pattern =
     [CHR ''~'', CHR 0x5C, CHR ''w'', CHR ''+'', CHR ''|'', CHR 0x5C, CHR ''w'', CHR ''+'', CHR ''~'']"

text \<open>The loop over the bold phrases (lines 196 to 201).\<close>

fun mark_bold :: "backend \<Rightarrow> string list \<Rightarrow> string list \<Rightarrow> error + string list" where
  "mark_bold be [] paragraph = Inr paragraph"
| "mark_bold be (phrase # phrases) paragraph =
     (let phrase_split = py_join [newline, CHR ''*''] (py_split '' '' phrase)
      in and_then
           (re_sub be phrase (CHR ''~'' # py_join '' ~'' (py_split '' '' phrase))
              (py_join [newline] paragraph))
           (\<lambda>s1.
              and_then
                (re_sub be phrase_split
                   (CHR ''~'' # py_join ''~'' (py_split ''*'' phrase_split))
                   (py_join [newline] (py_split [newline] s1)))
                (\<lambda>s2. mark_bold be phrases (py_split [newline] s2))))"

text \<open>
  The loop over the words of a line (lines 214 to 230). The state is the image, the running
  X position and the size of the last word drawn.
\<close>

fun place_words ::
  "backend \<Rightarrow> textbox \<Rightarrow> bool \<Rightarrow> bool \<Rightarrow> int \<Rightarrow> nat \<Rightarrow> string list
     \<Rightarrow> image \<times> int \<times> (int \<times> int) \<Rightarrow> error + image \<times> int \<times> (int \<times> int)" where
  "place_words be tb bottom_left_origin bold current_Y k [] s = Inr s"
| "place_words be tb bottom_left_origin bold current_Y k (w # ws) (img, current_X, last_size) =
     and_then
       (if bold \<and> re_search be bold_marker_pattern w
        then and_then (re_sub be ''~'' [] w) (\<lambda>w1. Inr (w1, (255, 255, 255)))
        else Inr (w, font_color tb))
       (\<lambda>(w1, col).
          let word = (if k \<noteq> 0 then space # w1 else w1);
              word_size = getTextSize be word (font_scale tb) (font_width tb);
              img1 = cv_putText be img word (current_X, current_Y) (font_scale tb) col
                       (font_width tb) bottom_left_origin
          in place_words be tb bottom_left_origin bold current_Y (Suc k) ws
               (img1, current_X + fst word_size, word_size))"

text \<open>
  The loop over the lines of a paragraph (lines 204 to 234). \<^verbatim>\<open>line.split(' ')\<close> has at
  least one element, so \<open>word_size\<close> is bound when line 234 reads it; the state carries
  it from line to line as the Python variable does.
\<close>

fun place_lines ::
  "backend \<Rightarrow> textbox \<Rightarrow> bool \<Rightarrow> bool \<Rightarrow> bool \<Rightarrow> int \<Rightarrow> nat \<Rightarrow> nat \<Rightarrow> string list
     \<Rightarrow> image \<times> int \<times> (int \<times> int) \<Rightarrow> error + image \<times> int \<times> (int \<times> int)" where
  "place_lines be tb bottom_left_origin centered bold x_left m j [] s = Inr s"
| "place_lines be tb bottom_left_origin centered bold x_left m j (line # ls)
       (img, current_Y, last_size) =
     (let current_X =
            (if centered
             then py_int (of_int (int (cols img)
                    - fst (getTextSize be line (font_scale tb) (font_width tb))) / 2)
             else x_left)
      in and_then
           (place_words be tb bottom_left_origin bold current_Y 0 (py_split '' '' line)
              (img, current_X, last_size))
           (\<lambda>(img1, cx, word_size).
              place_lines be tb bottom_left_origin centered bold x_left m (Suc j) ls
                (img1,
                 (if int j \<noteq> int m - 1
                  then current_Y + py_int (of_int (snd word_size) * (1 + line_spacing tb))
                  else current_Y),
                 word_size)))"

text \<open>
  The loop over the paragraphs (lines 181 to 234). \<open>space_size\<close> is bound only for a
  block in paragraph mode (line 174); reading it otherwise raises UnboundLocalError.
\<close>

fun place_paragraphs ::
  "backend \<Rightarrow> textbox \<Rightarrow> bool \<Rightarrow> bool \<Rightarrow> bool \<Rightarrow> int \<Rightarrow> (int \<times> int) option \<Rightarrow> nat
     \<Rightarrow> string list list \<Rightarrow> image \<times> int \<times> (int \<times> int)
     \<Rightarrow> error + image \<times> int \<times> (int \<times> int)" where
  "place_paragraphs be tb bottom_left_origin centered bold x space_size i [] s = Inr s"
| "place_paragraphs be tb bottom_left_origin centered bold x space_size i (paragraph # ps)
       (img, current_Y, last_size) =
     and_then
       (if i \<noteq> 0
        then (case space_size of
                None \<Rightarrow> Inl UnboundLocalError
              | Some ss \<Rightarrow>
                  Inr (current_Y
                    + py_int ((1 + paragraph_spacing tb * line_spacing tb) * of_int (snd ss))))
        else Inr current_Y)
       (\<lambda>cy.
          and_then
            (if paragraph_break tb \<and> circle tb
             then (case space_size of
                     None \<Rightarrow> Inl UnboundLocalError
                   | Some ss \<Rightarrow>
                       Inr (cv_circle be img (x, cy - py_int (of_int (snd ss) / 2))
                              (circle_size tb) (font_color tb) (- 1),
                            x + circle_size tb + fst ss))
             else Inr (img, x))
            (\<lambda>(img1, x_left).
               and_then
                 (if bold then mark_bold be (bold_words tb) paragraph else Inr paragraph)
                 (\<lambda>paragraph1.
                    and_then
                      (place_lines be tb bottom_left_origin centered bold x_left
                         (length paragraph1) 0 paragraph1 (img1, cy, last_size))
                      (place_paragraphs be tb bottom_left_origin centered bold x space_size
                         (Suc i) ps))))"

text \<open>\<^verbatim>\<open>place_text\<close>: the image drawn on and the returned Y coordinate.\<close>

definition place_text ::
  "backend \<Rightarrow> textbox \<Rightarrow> image \<Rightarrow> int \<Rightarrow> int \<Rightarrow> bool \<Rightarrow> bool \<Rightarrow> bool \<Rightarrow> error + image \<times> int" where
  "place_text be tb img x y bottom_left_origin centered bold =
     (let space_size =
            (if paragraph_break tb
             then Some (getTextSize be '' '' (font_scale tb) (font_width tb))
             else None);
          current_Y = y + py_int (of_int (snd (bounding_box tb) - height tb) / 2)
      in and_then
           (place_paragraphs be tb bottom_left_origin centered bold x space_size 0
              (paragraphs tb) (img, current_Y, (0, 0)))
           (\<lambda>(img1, cy, ws). Inr (img1, y + snd (bounding_box tb))))"

subsection \<open>Canvas operations\<close>

definition create_blank_image :: image where
  "create_blank_image = \<lparr>rows = 3288, cols = 4488, pix = (\<lambda>r c. (34, 34, 34))\<rparr>"

definition place_line ::
  "backend \<Rightarrow> image \<Rightarrow> int \<Rightarrow> int \<Rightarrow> int \<Rightarrow> int \<Rightarrow> color \<Rightarrow> int \<Rightarrow> image" where
  "place_line be img x_1 x_2 y_1 y_2 col line_width =
     cv_line be img (x_1, y_1) (x_2, y_2) col line_width"

definition show_margins :: "backend \<Rightarrow> image \<Rightarrow> int \<Rightarrow> int \<Rightarrow> image" where
  "show_margins be img x_margin y_margin =
     (let x_color = (0, 255, 255);
          y_color = (255, 255, 0);
          img1 = place_line be img x_margin (int (cols img) - x_margin) y_margin y_margin
                   y_color 5;
          img2 = place_line be img1 x_margin (int (cols img1) - x_margin)
                   (int (rows img1) - y_margin) (int (rows img1) - y_margin) y_color 5;
          img3 = place_line be img2 x_margin x_margin y_margin (int (rows img2) - y_margin)
                   x_color 5
      in place_line be img3 (int (cols img3) - x_margin) (int (cols img3) - x_margin)
           y_margin (int (rows img3) - y_margin) x_color 5)"

text \<open>
  A numpy slice bound on an axis of length \<open>n\<close>: a negative bound counts from the end,
  and the result is clipped to \<open>0..n\<close>.
\<close>

definition slice_bound :: "nat \<Rightarrow> int \<Rightarrow> nat" where
  "slice_bound n i = (if i < 0 then nat (max 0 (i + int n)) else min n (nat i))"

text \<open>
  \<^verbatim>\<open>image[r0:r1, c0:c1, :] = src\<close>. The slice selects the rows and columns between the
  normalised bounds (none when the second is not above the first). The source array is
  broadcast to the slice: an axis of the source fits when it has the length of the slice
  or length one; otherwise numpy raises ValueError and the image is unchanged.
\<close>

definition slice_assign ::
  "image \<Rightarrow> int \<times> int \<Rightarrow> int \<times> int \<Rightarrow> image \<Rightarrow> error + image" where
  "slice_assign img rs cs src =
     (let r0 = slice_bound (rows img) (fst rs);
          h = slice_bound (rows img) (snd rs) - r0;
          c0 = slice_bound (cols img) (fst cs);
          w = slice_bound (cols img) (snd cs) - c0
      in if (rows src = h \<or> rows src = 1) \<and> (cols src = w \<or> cols src = 1)
         then Inr (img\<lparr>pix := (\<lambda>r c.
                if r0 \<le> r \<and> r < r0 + h \<and> c0 \<le> c \<and> c < c0 + w
                then pix src (if rows src = 1 then 0 else r - r0)
                       (if cols src = 1 then 0 else c - c0)
                else pix img r c)\<rparr>)
         else Inl ValueError)"

definition place_qr ::
  "image \<Rightarrow> image \<Rightarrow> int \<Rightarrow> int \<Rightarrow> int \<Rightarrow> error + image \<times> (int \<times> int)" where
  "place_qr img qr x y padding =
     (let qr_x_coord = (x, x + int (cols qr));
          qr_y_coord = (y + py_int (of_int padding / 2),
                        y + py_int (of_int padding / 2) + int (rows qr))
      in and_then (slice_assign img qr_y_coord qr_x_coord qr)
           (\<lambda>img1. Inr (img1, (snd qr_x_coord, snd qr_y_coord))))"

subsection \<open>Vertical budget\<close>

fun sum_boxes :: "textbox list \<Rightarrow> int \<Rightarrow> int" where
  "sum_boxes [] vertical_space = vertical_space"
| "sum_boxes (text_box # bs) vertical_space =
     sum_boxes bs (vertical_space + (snd (bounding_box text_box) + line_height text_box))"

definition calculate_vertical_space ::
  "textbox list \<Rightarrow> int \<Rightarrow> int \<Rightarrow> int \<Rightarrow> int \<Rightarrow> int \<Rightarrow> int \<Rightarrow> int" where
  "calculate_vertical_space text_boxes qr_height top_margin bot_margin line_break_spacing
       num_line_breaks padding =
     sum_boxes text_boxes
       (top_margin + bot_margin + num_line_breaks * line_break_spacing + qr_height + padding)"

subsection \<open>One record\<close>

text \<open>
  A validated row of the configuration: the fields \<^verbatim>\<open>create_image\<close> reads, after
  \<^verbatim>\<open>validate_parameters\<close> has replaced what is missing or malformed.
\<close>

record series =
  s_image_name :: string
  s_title_text :: string
  s_points_text :: string
  s_summary_text :: string
  s_back_title_text :: string
  s_back_body_text :: string
  s_title_font_scale :: rat
  s_points_font_scale :: rat
  s_summary_font_scale :: rat
  s_back_title_font_scale :: rat
  s_back_body_font_scale :: rat
  s_title_font_color :: int
  s_points_font_color :: int
  s_summary_font_color :: int
  s_back_title_font_color :: int
  s_back_body_font_color :: int
  s_title_line_spacing :: rat
  s_points_line_spacing :: rat
  s_summary_line_spacing :: rat
  s_back_title_line_spacing :: rat
  s_back_body_line_spacing :: rat
  s_top_margin :: int
  s_bot_margin :: int
  s_left_margin :: int
  s_right_margin :: int
  s_qr_url :: string
  s_qr_size :: int
  s_qr_offset :: int
  s_line_break_spacing :: int
  s_bullet_points :: int
  s_bold_words :: string
  s_paragraph_spacing :: rat

text \<open>The seven blocks of a card, under the names of the local variables.\<close>

record boxes =
  title_text :: textbox
  points_prefix :: textbox
  points_text :: textbox
  summary_text :: textbox
  qr_text :: textbox
  back_title_text :: textbox
  back_text :: textbox

definition qr_caption :: string where
  "qr_caption = ''Scan the QR code on the right to see the full deck list on Moxfield. For more information, see the other side of this card.''"

text \<open>
  Lines 413 to 440: the points prefix and the points value, each constructed and measured.
  \<open>min_scale\<close> is \<^verbatim>\<open>summary_text.font_scale + 0.5\<close>.
\<close>

definition measure_points ::
  "backend \<Rightarrow> nat \<Rightarrow> image \<Rightarrow> series \<Rightarrow> rat \<Rightarrow> log_store
     \<Rightarrow> error + textbox \<times> textbox \<times> log_store" where
  "measure_points be depth image_front sr min_scale st =
     (let points_font_width = \<lceil>s_points_font_scale sr * 3\<rceil>;
          points_font_color =
            (s_points_font_color sr, s_points_font_color sr, s_points_font_color sr);
          prefix0 = TextBox ''Points Prefix'' ''Points: '' (s_points_font_scale sr)
                      points_font_width points_font_color (s_left_margin sr)
                      (s_right_margin sr) (s_points_line_spacing sr)
      in and_then (calculate_text_bb be depth image_front 200 min_scale Caller (prefix0, st))
           (\<lambda>(prefix1, st1).
              let value0 = (TextBox ''Points Text'' (s_points_text sr) (s_points_font_scale sr)
                              points_font_width points_font_color
                              (s_left_margin sr + width prefix1)
                              (s_right_margin sr) (s_points_line_spacing sr))
                            \<lparr>delim := '';'', splitter := '',''\<rparr>
              in and_then (calculate_text_bb be depth image_front 600 min_scale Caller (value0, st1))
                   (\<lambda>(value1, st2). Inr (prefix1, value1, st2))))"

text \<open>Lines 442 to 449: the cross-field rule on the two points blocks.\<close>

definition points_rescale ::
  "backend \<Rightarrow> nat \<Rightarrow> image \<Rightarrow> series \<Rightarrow> textbox \<times> textbox \<times> log_store
     \<Rightarrow> error + textbox \<times> textbox \<times> log_store" where
  "points_rescale be depth image_front sr pvs =
     (case pvs of (prefix1, value1, st) \<Rightarrow>
        if font_scale value1 < font_scale prefix1
        then
          (let st1 = append_log Caller (PointsSmaller (s_image_name sr)) st;
               prefix2 = prefix1\<lparr>font_scale := font_scale value1,
                                  font_width := font_width value1\<rparr>
           in and_then
                (calculate_text_bb be depth image_front 200 (font_scale value1) Caller
                   (prefix2, st1))
                (\<lambda>(prefix3, st2).
                   let value2 = value1\<lparr>left_margin := s_left_margin sr + width prefix3\<rparr>
                   in and_then
                        (calculate_text_bb be depth image_front 600 (font_scale value2) Caller
                           (value2, st2))
                        (\<lambda>(value3, st3). Inr (prefix3, value3, st3))))
        else Inr (prefix1, value1, st))"

text \<open>
  Lines 347 to 493: the blocks are constructed and measured in the order of the source. The
  result is the blocks, the resized QR image and the store.
\<close>

definition create_image_measure ::
  "backend \<Rightarrow> nat \<Rightarrow> series \<Rightarrow> bool \<Rightarrow> log_store \<Rightarrow> error + boxes \<times> image \<times> log_store" where
  "create_image_measure be depth sr save st0 =
     (let st = append_log Caller (CalculatingBoxes (s_image_name sr)) st0;
          title_font_width = \<lceil>s_title_font_scale sr * 3\<rceil>;
          summary_font_width = \<lceil>s_summary_font_scale sr * 3\<rceil>;
          back_title_font_width = \<lceil>s_back_title_font_scale sr * 3\<rceil>;
          back_body_font_width = \<lceil>s_back_body_font_scale sr * 3\<rceil>;
          title_font_color =
            (s_title_font_color sr, s_title_font_color sr, s_title_font_color sr);
          summary_font_color =
            (s_summary_font_color sr, s_summary_font_color sr, s_summary_font_color sr);
          back_title_font_color =
            (s_back_title_font_color sr, s_back_title_font_color sr,
             s_back_title_font_color sr);
          back_body_font_color =
            (s_back_body_font_color sr, s_back_body_font_color sr, s_back_body_font_color sr);
          bold = py_split '';'' (s_bold_words sr);
          image_front = create_blank_image;
          image_back = create_blank_image;
          summary0 = (TextBox ''Summary Text'' (s_summary_text sr) (s_summary_font_scale sr)
                        summary_font_width summary_font_color (s_left_margin sr)
                        (s_right_margin sr) (s_summary_line_spacing sr))
                      \<lparr>bold_words := bold\<rparr>
      in and_then (calculate_text_bb be depth image_front 1000 (5 / 2) Caller (summary0, st))
        (\<lambda>(summary, st1).
           let st2 = (if save then append_log Caller (SavingQR (s_image_name sr)) st1 else st1);
               qr_image = make_qr be (s_qr_url sr) (s_qr_size sr);
               qr0 = TextBox ''QR Text'' qr_caption (font_scale summary) (font_width summary)
                       (font_color summary) (s_left_margin sr)
                       (s_right_margin sr + s_qr_offset sr + int (cols qr_image))
                       (s_summary_line_spacing sr)
           in and_then
                (calculate_text_bb be depth image_front 500 (font_scale summary) Caller
                   (qr0, st2))
             (\<lambda>(qr, st3).
                and_then
                  (and_then
                     (measure_points be depth image_front sr (font_scale summary + 1 / 2) st3)
                     (points_rescale be depth image_front sr))
                  (\<lambda>(prefix, value, st4).
                     let title0 = TextBox ''Front Title'' (s_title_text sr)
                                    (s_title_font_scale sr) title_font_width title_font_color
                                    (s_left_margin sr) (s_right_margin sr)
                                    (s_title_line_spacing sr)
                     in and_then
                          (calculate_text_bb be depth image_front 280 (font_scale value + 1 / 2)
                             Caller (title0, st4))
                       (\<lambda>(title, st5).
                          let back0 = (TextBox ''Back Body Text'' (s_back_body_text sr)
                                         (s_back_body_font_scale sr) back_body_font_width
                                         back_body_font_color (s_left_margin sr)
                                         (s_right_margin sr) (s_back_body_line_spacing sr))
                                       \<lparr>bold_words := bold, paragraph_break := True,
                                         circle := (s_bullet_points sr \<noteq> 0),
                                         paragraph_spacing := s_paragraph_spacing sr\<rparr>
                          in and_then
                               (calculate_text_bb be depth image_back 2400 (5 / 2) Caller
                                  (back0, st5))
                            (\<lambda>(back, st6).
                               let back_title0 =
                                     TextBox ''Back Title Text'' (s_back_title_text sr)
                                       (s_back_title_font_scale sr) back_title_font_width
                                       back_title_font_color (s_left_margin sr)
                                       (s_right_margin sr) (s_back_title_line_spacing sr)
                               in and_then
                                    (calculate_text_bb be depth image_back 280
                                       (font_scale back + 1) Caller (back_title0, st6))
                                 (\<lambda>(back_title, st7).
                                    Inr (\<lparr>title_text = title, points_prefix = prefix,
                                           points_text = value, summary_text = summary,
                                           qr_text = qr, back_title_text = back_title,
                                           back_text = back\<rparr>,
                                         qr_image, st7))))))))"

text \<open>The two budgets of lines 496 to 505.\<close>

definition front_vertical_space :: "series \<Rightarrow> boxes \<Rightarrow> image \<Rightarrow> int" where
  "front_vertical_space sr bx qr_image =
     calculate_vertical_space [title_text bx, points_text bx, summary_text bx]
       (int (rows qr_image)) (s_top_margin sr) (s_bot_margin sr) (s_line_break_spacing sr) 2 100"

definition back_vertical_space :: "series \<Rightarrow> boxes \<Rightarrow> int" where
  "back_vertical_space sr bx =
     calculate_vertical_space [back_title_text bx] 0 (s_top_margin sr) (s_bot_margin sr)
       (s_line_break_spacing sr) 1
       (line_height (back_text bx) + height (back_text bx))"

text \<open>Lines 507 to 531: the front face.\<close>

definition create_image_front ::
  "backend \<Rightarrow> series \<Rightarrow> boxes \<Rightarrow> image \<Rightarrow> image \<Rightarrow> log_store \<Rightarrow> error + image \<times> log_store" where
  "create_image_front be sr bx qr_image image_front st =
     (if int (rows image_front) - front_vertical_space sr bx qr_image \<ge> 0
      then
        (let title_text_Y = s_top_margin sr + line_height (title_text bx);
             title_points_line_Y =
               title_text_Y + snd (bounding_box (title_text bx)) - s_line_break_spacing sr;
             points_text_Y =
               title_points_line_Y + 2 * s_line_break_spacing sr + line_height (points_text bx);
             summary_text_Y =
               points_text_Y + snd (bounding_box (points_text bx))
                 + line_height (summary_text bx);
             summary_qr_line_Y =
               summary_text_Y + snd (bounding_box (summary_text bx)) + s_line_break_spacing sr
         in and_then
              (place_text be (title_text bx) image_front (s_left_margin sr) title_text_Y
                 False True False)
           (\<lambda>(img1, title_Y).
              let img2 = place_line be img1 (s_left_margin sr - 50)
                           (int (cols img1) - s_right_margin sr + 50)
                           title_points_line_Y title_points_line_Y (255, 255, 255) 5
              in and_then
                   (place_text be (points_prefix bx) img2 (s_left_margin sr) points_text_Y
                      False False False)
                (\<lambda>(img3, points_prefix_Y).
                   and_then
                     (place_text be (points_text bx) img3
                        (s_left_margin sr + width (points_prefix bx)) points_text_Y
                        False False False)
                   (\<lambda>(img4, points_Y).
                      and_then
                        (place_text be (summary_text bx) img4 (s_left_margin sr) summary_text_Y
                           False False True)
                      (\<lambda>(img5, summary_Y).
                         let img6 = place_line be img5 (s_left_margin sr - 50)
                                      (int (cols img5) - s_right_margin sr + 50)
                                      summary_qr_line_Y summary_qr_line_Y (255, 255, 255) 5
                         in and_then
                              (place_qr img6 qr_image
                                 (int (cols img6) - s_right_margin sr - int (cols qr_image))
                                 summary_qr_line_Y 200)
                           (\<lambda>(img7, qr_coords).
                              and_then
                                (place_text be (qr_text bx) img7 (s_left_margin sr)
                                   (snd qr_coords - snd (bounding_box (qr_text bx))
                                      + py_int (of_int (snd (bounding_box (qr_text bx))
                                                   - height (qr_text bx)) / 2))
                                   False False False)
                              (\<lambda>(img8, qr_Y). Inr (img8, st))))))))
      else Inr (image_front, append_log Caller (FrontOverflow (s_image_name sr)) st))"

text \<open>
  Lines 533 to 546: the back face. The separator line reads the width of the front image.
\<close>

definition create_image_back ::
  "backend \<Rightarrow> series \<Rightarrow> boxes \<Rightarrow> image \<Rightarrow> image \<Rightarrow> log_store \<Rightarrow> error + image \<times> log_store" where
  "create_image_back be sr bx image_front image_back st =
     (if int (rows image_back) - back_vertical_space sr bx \<ge> 0
      then
        (let back_title_text_Y = s_top_margin sr + line_height (back_title_text bx);
             back_title_body_line_Y =
               back_title_text_Y + snd (bounding_box (back_title_text bx))
                 - s_line_break_spacing sr;
             back_body_text_Y =
               back_title_body_line_Y + 2 * s_line_break_spacing sr
                 + line_height (back_text bx)
         in and_then
              (place_text be (back_title_text bx) image_back (s_left_margin sr)
                 back_title_text_Y False True False)
           (\<lambda>(img1, back_title_Y).
              let img2 = place_line be img1 (s_left_margin sr - 50)
                           (int (cols image_front) - s_right_margin sr + 50)
                           back_title_body_line_Y back_title_body_line_Y (255, 255, 255) 5
              in and_then
                   (place_text be (back_text bx) img2 (s_left_margin sr) back_body_text_Y
                      False False True)
                (\<lambda>(img3, back_text_Y). Inr (img3, st))))
      else Inr (image_back, append_log Caller BackOverflow st))"

text \<open>
  \<^verbatim>\<open>create_image\<close>. Showing the images and writing the files leave no trace in the
  values the function returns; of saving, the log entries are kept. The result is the two
  faces, the list \<open>text_boxes\<close> and the store, whose \<open>caller_logs\<close> is the list
  returned as \<open>logs\<close>.
\<close>

definition create_image ::
  "backend \<Rightarrow> nat \<Rightarrow> series \<Rightarrow> bool \<Rightarrow> bool \<Rightarrow> bool \<Rightarrow> log_store
     \<Rightarrow> error + (image \<times> image) \<times> textbox list \<times> log_store" where
  "create_image be depth sr display margins save st0 =
     and_then (create_image_measure be depth sr save st0)
       (\<lambda>(bx, qr_image, st1).
          and_then (create_image_front be sr bx qr_image create_blank_image st1)
            (\<lambda>(image_front, st2).
               and_then (create_image_back be sr bx image_front create_blank_image st2)
                 (\<lambda>(image_back, st3).
                    let image_front1 =
                          (if margins
                           then show_margins be image_front (s_left_margin sr - 50)
                                  (s_top_margin sr - 50)
                           else image_front);
                        image_back1 =
                          (if margins
                           then show_margins be image_back (s_left_margin sr - 50)
                                  (s_top_margin sr - 50)
                           else image_back);
                        st4 = (if save
                               then append_log Caller (SavingImages (s_image_name sr)) st3
                               else st3)
                    in Inr ((image_front1, image_back1),
                            [title_text bx, points_prefix bx, points_text bx, summary_text bx,
                             qr_text bx, back_title_text bx, back_text bx],
                            st4))))"

text \<open>The loop of \<^verbatim>\<open>main\<close> over the records (lines 598 to 602) and the closing entry.\<close>

fun process_records ::
  "backend \<Rightarrow> nat \<Rightarrow> bool \<Rightarrow> bool \<Rightarrow> bool \<Rightarrow> series list
     \<Rightarrow> ((image \<times> image) \<times> textbox list) list \<times> log_store
     \<Rightarrow> error + ((image \<times> image) \<times> textbox list) list \<times> log_store" where
  "process_records be depth display margins save [] (images, st) = Inr (images, st)"
| "process_records be depth display margins save (sr # srs) (images, st) =
     and_then
       (create_image be depth sr display margins save
          (append_log Caller (Processing (s_image_name sr)) st))
       (\<lambda>(image_pair, text_boxes, st1).
          process_records be depth display margins save srs
            (images @ [(image_pair, text_boxes)], st1))"

definition main_records ::
  "backend \<Rightarrow> nat \<Rightarrow> bool \<Rightarrow> bool \<Rightarrow> bool \<Rightarrow> series list \<Rightarrow> log_store
     \<Rightarrow> error + ((image \<times> image) \<times> textbox list) list \<times> log_store" where
  "main_records be depth display margins save df st =
     and_then (process_records be depth display margins save df ([], st))
       (\<lambda>(images, st1). Inr (images, append_log Caller (ImagesProcessed (length df)) st1))"

section \<open>Vocabulary of the properties\<close>

subsection \<open>Words, widths and the greedy packing\<close>

text \<open>
  The word number \<open>ix\<close> of a paragraph of \<open>n\<close> words as the block shows it: leading
  whitespace stripped and the splitter appended where the loop appends it, without the
  space the loop puts in front of every word but the first.
\<close>

definition shown_word :: "textbox \<Rightarrow> nat \<Rightarrow> nat \<Rightarrow> string \<Rightarrow> string" where
  "shown_word tb n ix w =
     (if int ix \<noteq> int n - 1 \<and> delim tb \<noteq> '' '' then lstrip w @ splitter tb else lstrip w)"

definition paragraph_words :: "textbox \<Rightarrow> string \<Rightarrow> string list" where
  "paragraph_words tb p =
     (let text_list = py_split (delim tb) p
      in map (\<lambda>(ix, w). shown_word tb (length text_list) ix w) (enumerate 0 text_list))"





subsection \<open>The parts of one measurement\<close>

text \<open>
  Lines 81 to 90 of \<^verbatim>\<open>calculate_text_bb\<close> (line height, shifted left margin), lines 92 to
  133 (the wrapped lines of every paragraph), and the height and width that lines 136 to
  148 add to a block, computed from zero.
\<close>

definition begin_pass :: "backend \<Rightarrow> textbox \<Rightarrow> textbox" where
  "begin_pass be tb =
     (let space_size = getTextSize be '' '' (font_scale tb) (font_width tb);
          tb1 = tb\<lparr>line_height := snd space_size\<rparr>
      in if paragraph_break tb1
         then tb1\<lparr>left_margin := left_margin tb1 + circle_size tb1 + fst space_size\<rparr>
         else tb1)"

definition wrap_all :: "backend \<Rightarrow> image \<Rightarrow> textbox \<Rightarrow> string list list" where
  "wrap_all be img tb =
     map (py_split [newline])
       (map (wrap_paragraph be img tb)
          (if paragraph_break tb then py_split [CHR 0x5C, CHR ''p''] (tb_text tb)
           else [tb_text tb]))"

definition content_size :: "backend \<Rightarrow> image \<Rightarrow> textbox \<Rightarrow> int \<times> int" where
  "content_size be img tb =
     measure_paragraphs be tb (line_height (begin_pass be tb)) 0
       (wrap_all be img (begin_pass be tb)) (0, 0)"

text \<open>The invariant of the style: the stroke width is the ceiling of three times the scale.\<close>

definition stroke_ok :: "textbox \<Rightarrow> bool" where
  "stroke_ok tb \<longleftrightarrow> font_width tb = \<lceil>font_scale tb * 3\<rceil>"

text \<open>What a call of \<^verbatim>\<open>calculate_text_bb\<close> leaves: the block and the store.\<close>

definition final_box :: "error + textbox \<times> log_store \<Rightarrow> textbox option" where
  "final_box res = (case res of Inl e \<Rightarrow> None | Inr (tb, st) \<Rightarrow> Some tb)"

definition final_store :: "error + textbox \<times> log_store \<Rightarrow> log_store option" where
  "final_store res = (case res of Inl e \<Rightarrow> None | Inr (tb, st) \<Rightarrow> Some st)"

subsection \<open>Concrete inputs\<close>

text \<open>
  A backend with simple metrics: every character is \<open>\<lceil>20 * scale\<rceil>\<close> pixels wide and
  every string \<open>\<lceil>30 * scale\<rceil>\<close> pixels high; drawing leaves the image as it is, no
  pattern matches, and the QR image is black.
\<close>

definition demo_backend :: backend where
  "demo_backend =
     \<lparr>getTextSize = (\<lambda>s scale th. (int (length s) * \<lceil>scale * 20\<rceil>, \<lceil>scale * 30\<rceil>)),
      cv_line = (\<lambda>img p q col w. img),
      cv_circle = (\<lambda>img p r col th. img),
      cv_putText = (\<lambda>img s p scale col w b. img),
      re_sub = (\<lambda>pat repl s. Inr s),
      re_search = (\<lambda>pat s. False),
      make_qr = (\<lambda>url size. \<lparr>rows = nat size, cols = nat size, pix = (\<lambda>r c. (0, 0, 0))\<rparr>)\<rparr>"

definition empty_store :: log_store where
  "empty_store = \<lparr>caller_logs = [], default_logs = []\<rparr>"

definition misaligned_box :: textbox where
  "misaligned_box =
     TextBox ''Summary Text'' ''aa bb'' (13 / 4) 10 (180, 180, 180) 400 400 (6 / 5)"

definition tall_box :: textbox where
  "tall_box = TextBox ''Summary Text'' ''aa bb'' (7 / 2) 11 (180, 180, 180) 400 400 (6 / 5)"



definition wide_first_box :: textbox where
  "wide_first_box = TextBox ''Front Title'' ''Hello world'' 1 3 (255, 255, 255) 0 4400 (6 / 5)"


text \<open>The block \<open>misaligned_box\<close> after one measurement on the blank canvas.\<close>

definition measured_box :: textbox where
  "measured_box =
     misaligned_box\<lparr>line_height := 98, height := 98, width := 325,
                     bounding_box := (425, 178), paragraphs := [[''aa bb'']]\<rparr>"

section \<open>Properties\<close>

subsection \<open>Splitting, joining and the word loop\<close>


lemma py_split_not_Nil [simp]: "py_split sep s \<noteq> []"
  by (induction sep s rule: py_split.induct) (auto split: list.splits)

lemma split_nl_Cons:
  "py_split [newline] (c # cs) =
     (if c = newline then [] # py_split [newline] cs
      else (c # hd (py_split [newline] cs)) # tl (py_split [newline] cs))"
  by (cases "py_split [newline] cs") (auto)
















subsection \<open>One measurement\<close>

lemma measure_pass_fields:
  assumes "measure_pass be img tb = Inr tb1"
  shows "font_scale tb1 = font_scale tb" and "font_width tb1 = font_width tb"
    and "name tb1 = name tb" and "delim tb1 = delim tb" and "delim tb \<noteq> []"
  using assms by (auto simp: measure_pass_def Let_def split: if_splits)

lemma measure_pass_total:
  "delim tb \<noteq> [] \<Longrightarrow> \<exists>tb1. measure_pass be img tb = Inr tb1"
  by (simp add: measure_pass_def Let_def)

lemma wrap_words_cong:
  assumes "font_scale tb' = font_scale tb" "font_width tb' = font_width tb"
    "left_margin tb' = left_margin tb" "right_margin tb' = right_margin tb"
    "delim tb' = delim tb" "splitter tb' = splitter tb"
  shows "wrap_words be img tb' n ix ws s = wrap_words be img tb n ix ws s"
  using assms
  by (induction ws arbitrary: ix s) (auto simp: decorate_def Let_def split: prod.splits)

lemma wrap_paragraph_cong:
  assumes "font_scale tb' = font_scale tb" "font_width tb' = font_width tb"
    "left_margin tb' = left_margin tb" "right_margin tb' = right_margin tb"
    "delim tb' = delim tb" "splitter tb' = splitter tb"
  shows "wrap_paragraph be img tb' p = wrap_paragraph be img tb p"
  using assms by (simp add: wrap_paragraph_def wrap_words_cong[OF assms])

lemma measure_lines_cong:
  assumes "font_scale tb' = font_scale tb" "font_width tb' = font_width tb"
    "line_spacing tb' = line_spacing tb"
  shows "measure_lines be tb' sh m j ls s = measure_lines be tb sh m j ls s"
  using assms
  by (induction ls arbitrary: j s) (auto simp: Let_def split: prod.splits)

lemma measure_paragraphs_cong:
  assumes "font_scale tb' = font_scale tb" "font_width tb' = font_width tb"
    "line_spacing tb' = line_spacing tb" "paragraph_spacing tb' = paragraph_spacing tb"
  shows "measure_paragraphs be tb' sh i ps s = measure_paragraphs be tb sh i ps s"
proof (induction ps arbitrary: i s)
  case Nil
  show ?case by (cases s) simp
next
  case (Cons p ps)
  obtain h w where s: "s = (h, w)" by (cases s)
  show ?case
    unfolding s
    by (simp add: Let_def measure_lines_cong[OF assms(1,2,3)] Cons.IH assms(3,4))
qed

lemma measure_lines_acc:
  "0 \<le> w \<Longrightarrow>
   measure_lines be tb sh m j ls (h, w) =
     (h + fst (measure_lines be tb sh m j ls (0, 0)),
      max w (snd (measure_lines be tb sh m j ls (0, 0))))"
proof (induction ls arbitrary: j h w)
  case Nil
  then show ?case by simp
next
  case (Cons l ls)
  let ?lw = "fst (getTextSize be l (font_scale tb) (font_width tb))"
  let ?d = "snd (getTextSize be l (font_scale tb) (font_width tb))
            + (if int j \<noteq> int m - 1 then py_int (of_int sh * line_spacing tb) else 0)"
  let ?R = "measure_lines be tb sh m (Suc j) ls (0, 0)"
  have a: "measure_lines be tb sh m j (l # ls) (h, w) =
           measure_lines be tb sh m (Suc j) ls (h + ?d, max ?lw w)"
    by (simp add: Let_def max_def add.assoc)
  have b: "measure_lines be tb sh m j (l # ls) (0, 0) =
           measure_lines be tb sh m (Suc j) ls (?d, max ?lw 0)"
    by (simp add: Let_def max_def add.assoc)
  have c: "measure_lines be tb sh m (Suc j) ls (h + ?d, max ?lw w) =
           (h + ?d + fst ?R, max (max ?lw w) (snd ?R))"
    using Cons.IH[of "max ?lw w" "Suc j" "h + ?d"] Cons.prems by simp
  have d: "measure_lines be tb sh m (Suc j) ls (?d, max ?lw 0) =
           (?d + fst ?R, max (max ?lw 0) (snd ?R))"
    using Cons.IH[of "max ?lw 0" "Suc j" "?d"] by simp
  show ?case unfolding a b c d using Cons.prems by (simp add: max_def)
qed

lemma measure_paragraphs_acc:
  "0 \<le> w \<Longrightarrow>
   measure_paragraphs be tb sh i ps (h, w) =
     (h + fst (measure_paragraphs be tb sh i ps (0, 0)),
      max w (snd (measure_paragraphs be tb sh i ps (0, 0))))"
proof (induction ps arbitrary: i h w)
  case Nil
  then show ?case by simp
next
  case (Cons p ps)
  define g where
    "g = (if i \<noteq> 0 then py_int (of_int sh * (paragraph_spacing tb * line_spacing tb)) else 0)"
  define L where "L = measure_lines be tb sh (length p) 0 p (0, 0)"
  define R where "R = measure_paragraphs be tb sh (Suc i) ps (0, 0)"
  have step: "\<And>h w. measure_paragraphs be tb sh i (p # ps) (h, w) =
      measure_paragraphs be tb sh (Suc i) ps (measure_lines be tb sh (length p) 0 p (h + g, w))"
    by (cases "i = 0") (simp_all add: g_def Let_def)
  have lines: "\<And>h w. 0 \<le> w \<Longrightarrow>
      measure_lines be tb sh (length p) 0 p (h, w) = (h + fst L, max w (snd L))"
    unfolding L_def by (rule measure_lines_acc)
  have rec: "\<And>h w. 0 \<le> w \<Longrightarrow>
      measure_paragraphs be tb sh (Suc i) ps (h, w) = (h + fst R, max w (snd R))"
    unfolding R_def by (rule Cons.IH)
  have a: "measure_paragraphs be tb sh i (p # ps) (h, w) =
           (h + g + fst L + fst R, max (max w (snd L)) (snd R))"
    unfolding step using Cons.prems by (simp add: lines rec)
  have b: "measure_paragraphs be tb sh i (p # ps) (0, 0) =
           (g + fst L + fst R, max (max 0 (snd L)) (snd R))"
    unfolding step by (simp add: lines rec)
  show ?case unfolding a b using Cons.prems by (simp add: max_def)
qed


lemma begin_pass_fields [simp]:
  "font_scale (begin_pass be tb) = font_scale tb"
  "font_width (begin_pass be tb) = font_width tb"
  "line_spacing (begin_pass be tb) = line_spacing tb"
  "paragraph_spacing (begin_pass be tb) = paragraph_spacing tb"
  "right_margin (begin_pass be tb) = right_margin tb"
  "delim (begin_pass be tb) = delim tb"
  "splitter (begin_pass be tb) = splitter tb"
  "paragraph_break (begin_pass be tb) = paragraph_break tb"
  "tb_text (begin_pass be tb) = tb_text tb"
  "height (begin_pass be tb) = height tb"
  "width (begin_pass be tb) = width tb"
  "name (begin_pass be tb) = name tb"
  by (simp_all add: begin_pass_def Let_def)

lemma begin_pass_zeroed:
  "left_margin (begin_pass be (tb\<lparr>height := 0, width := 0\<rparr>)) = left_margin (begin_pass be tb)"
  "line_height (begin_pass be (tb\<lparr>height := 0, width := 0\<rparr>)) = line_height (begin_pass be tb)"
  by (simp_all add: begin_pass_def Let_def)

lemma wrap_all_cong:
  assumes "font_scale tb' = font_scale tb" "font_width tb' = font_width tb"
    "left_margin tb' = left_margin tb" "right_margin tb' = right_margin tb"
    "delim tb' = delim tb" "splitter tb' = splitter tb"
    "paragraph_break tb' = paragraph_break tb" "tb_text tb' = tb_text tb"
  shows "wrap_all be img tb' = wrap_all be img tb"
proof -
  have "wrap_paragraph be img tb' = wrap_paragraph be img tb"
    by (rule ext, rule wrap_paragraph_cong[OF assms(1-6)])
  then show ?thesis using assms(7,8) by (simp add: wrap_all_def)
qed

lemma measure_pass_unfold:
  "measure_pass be img tb =
     (if delim tb = [] then Inl ValueError
      else
        (let tb2 = begin_pass be tb;
             ps = wrap_all be img tb2;
             hw = measure_paragraphs be (tb2\<lparr>paragraphs := ps\<rparr>) (line_height tb2) 0 ps
                    (height tb, width tb)
         in Inr (tb2\<lparr>paragraphs := ps, height := fst hw, width := snd hw,
                       bounding_box := (snd hw + 100, fst hw + 80)\<rparr>)))"
  by (cases "paragraph_break tb")
     (simp_all add: measure_pass_def begin_pass_def wrap_all_def Let_def)

lemma measure_pass_result:
  assumes "measure_pass be img tb = Inr tb1"
  shows "paragraphs tb1 = wrap_all be img (begin_pass be tb)"
    and "(height tb1, width tb1) =
           measure_paragraphs be tb (line_height (begin_pass be tb)) 0
             (wrap_all be img (begin_pass be tb)) (height tb, width tb)"
    and "bounding_box tb1 = (width tb1 + 100, height tb1 + 80)"
    and "left_margin tb1 = left_margin (begin_pass be tb)"
    and "line_height tb1 = line_height (begin_pass be tb)"
proof -
  let ?tb2 = "begin_pass be tb"
  let ?ps = "wrap_all be img ?tb2"
  have c: "measure_paragraphs be (?tb2\<lparr>paragraphs := ?ps\<rparr>) (line_height ?tb2) 0 ?ps
             (height tb, width tb)
           = measure_paragraphs be tb (line_height ?tb2) 0 ?ps (height tb, width tb)"
    by (rule measure_paragraphs_cong) simp_all
  have dl: "delim tb \<noteq> []" using assms by (rule measure_pass_fields(5))
  from assms dl have eq: "tb1 = (let hw = measure_paragraphs be tb (line_height ?tb2) 0 ?ps
                    (height tb, width tb)
         in ?tb2\<lparr>paragraphs := ?ps, height := fst hw, width := snd hw,
                       bounding_box := (snd hw + 100, fst hw + 80)\<rparr>)"
    by (simp add: measure_pass_unfold Let_def c)
  show "paragraphs tb1 = wrap_all be img (begin_pass be tb)"
    and "(height tb1, width tb1) =
           measure_paragraphs be tb (line_height (begin_pass be tb)) 0
             (wrap_all be img (begin_pass be tb)) (height tb, width tb)"
    and "bounding_box tb1 = (width tb1 + 100, height tb1 + 80)"
    and "left_margin tb1 = left_margin (begin_pass be tb)"
    and "line_height tb1 = line_height (begin_pass be tb)"
    unfolding eq by (simp_all add: Let_def)
qed

lemma content_size_fresh:
  assumes "measure_pass be img (tb\<lparr>height := 0, width := 0\<rparr>) = Inr tb0"
  shows "(height tb0, width tb0) = content_size be img tb"
proof -
  let ?z = "tb\<lparr>height := 0, width := 0\<rparr>"
  have w: "wrap_all be img (begin_pass be ?z) = wrap_all be img (begin_pass be tb)"
    by (rule wrap_all_cong) (simp_all add: begin_pass_zeroed)
  have m: "measure_paragraphs be ?z (line_height (begin_pass be tb)) 0
             (wrap_all be img (begin_pass be tb)) (0, 0)
           = measure_paragraphs be tb (line_height (begin_pass be tb)) 0
             (wrap_all be img (begin_pass be tb)) (0, 0)"
    by (rule measure_paragraphs_cong) simp_all
  from measure_pass_result(2)[OF assms] show ?thesis
    by (simp add: content_size_def w m begin_pass_zeroed)
qed

lemma measure_pass_accumulates:
  assumes "0 \<le> width tb" and "measure_pass be img tb = Inr tb1"
  shows "height tb1 = height tb + fst (content_size be img tb)"
    and "width tb1 = max (width tb) (snd (content_size be img tb))"
proof -
  have "(height tb1, width tb1) =
        (height tb + fst (content_size be img tb), max (width tb) (snd (content_size be img tb)))"
    unfolding content_size_def measure_pass_result(2)[OF assms(2)]
    by (rule measure_paragraphs_acc[OF assms(1)])
  then show "height tb1 = height tb + fst (content_size be img tb)"
    and "width tb1 = max (width tb) (snd (content_size be img tb))"
    by simp_all
qed

lemma calculate_text_bb_scale_le:
  "calculate_text_bb be depth img mx mn r (tb, st) = Inr (tb', st') \<Longrightarrow>
   font_scale tb' \<le> font_scale tb"
proof (induction depth arbitrary: tb st r)
  case 0
  then show ?case by simp
next
  case (Suc depth)
  from Suc.prems obtain tb1 where p: "measure_pass be img tb = Inr tb1"
    by (auto split: sum.splits)
  have s1: "font_scale tb1 = font_scale tb" by (rule measure_pass_fields(1)[OF p])
  show ?case
  proof (cases "font_scale tb1 \<noteq> mn \<and> snd (bounding_box tb1) > mx")
    case True
    define tb2 where "tb2 = tb1\<lparr>font_scale := font_scale tb1 - 1 / 2,
        font_width := \<lceil>(font_scale tb1 - 1 / 2) * 3\<rceil>,
        left_margin := left_margin tb, height := 0, width := 0\<rparr>"
    from True Suc.prems p
    have "calculate_text_bb be depth img mx mn Default
            (tb2, append_log r (ExceededMaximum (name tb1) (font_scale tb1 - 1 / 2)) st)
          = Inr (tb', st')"
      by (simp add: Let_def tb2_def)
    from Suc.IH[OF this] have "font_scale tb' \<le> font_scale tb2" .
    then show ?thesis using s1 by (simp add: tb2_def)
  next
    case False
    with Suc.prems p have "tb' = tb1" by (auto split: if_splits)
    then show ?thesis using s1 by simp
  qed
qed

lemma calculate_text_bb_cases:
  assumes "calculate_text_bb be depth img mx mn r (tb, st) = Inr (tb', st')"
  shows "(font_scale tb' = font_scale tb \<and> measure_pass be img tb = Inr tb')
         \<or> (font_scale tb' < font_scale tb
              \<and> (\<exists>tb2. height tb2 = 0 \<and> width tb2 = 0 \<and> measure_pass be img tb2 = Inr tb'))"
  using assms
proof (induction depth arbitrary: tb st r)
  case 0
  then show ?case by simp
next
  case (Suc depth)
  from Suc.prems obtain tb1 where p: "measure_pass be img tb = Inr tb1"
    by (auto split: sum.splits)
  have s1: "font_scale tb1 = font_scale tb" by (rule measure_pass_fields(1)[OF p])
  show ?case
  proof (cases "font_scale tb1 \<noteq> mn \<and> snd (bounding_box tb1) > mx")
    case True
    define tb2 where "tb2 = tb1\<lparr>font_scale := font_scale tb1 - 1 / 2,
        font_width := \<lceil>(font_scale tb1 - 1 / 2) * 3\<rceil>,
        left_margin := left_margin tb, height := 0, width := 0\<rparr>"
    from True Suc.prems p
    have rec: "calculate_text_bb be depth img mx mn Default
            (tb2, append_log r (ExceededMaximum (name tb1) (font_scale tb1 - 1 / 2)) st)
          = Inr (tb', st')"
      by (simp add: Let_def tb2_def)
    have z: "height tb2 = 0" "width tb2 = 0" "font_scale tb2 < font_scale tb"
      using s1 by (simp_all add: tb2_def)
    from Suc.IH[OF rec] z show ?thesis by force
  next
    case False
    with Suc.prems p have "tb' = tb1" by (auto split: if_splits)
    with p s1 show ?thesis by simp
  qed
qed

lemma calculate_text_bb_stroke:
  "calculate_text_bb be depth img mx mn r (tb, st) = Inr (tb', st') \<Longrightarrow> stroke_ok tb
     \<Longrightarrow> stroke_ok tb'"
proof (induction depth arbitrary: tb st r)
  case 0
  then show ?case by simp
next
  case (Suc depth)
  from Suc.prems(1) obtain tb1 where p: "measure_pass be img tb = Inr tb1"
    by (auto split: sum.splits)
  have ok1: "stroke_ok tb1"
    using Suc.prems(2) measure_pass_fields(1,2)[OF p] by (simp add: stroke_ok_def)
  show ?case
  proof (cases "font_scale tb1 \<noteq> mn \<and> snd (bounding_box tb1) > mx")
    case True
    define tb2 where "tb2 = tb1\<lparr>font_scale := font_scale tb1 - 1 / 2,
        font_width := \<lceil>(font_scale tb1 - 1 / 2) * 3\<rceil>,
        left_margin := left_margin tb, height := 0, width := 0\<rparr>"
    have ok2: "stroke_ok tb2" by (simp add: stroke_ok_def tb2_def)
    from True Suc.prems(1) p
    have "calculate_text_bb be depth img mx mn Default
            (tb2, append_log r (ExceededMaximum (name tb1) (font_scale tb1 - 1 / 2)) st)
          = Inr (tb', st')"
      by (simp add: Let_def tb2_def)
    from Suc.IH[OF this ok2] show ?thesis .
  next
    case False
    with Suc.prems(1) p have "tb' = tb1" by (auto split: if_splits)
    with ok1 show ?thesis by simp
  qed
qed

text \<open>
  When the scale starts a whole number of half steps above the minimum, the recursion stops
  within that many steps and never leaves the range between the minimum and the start.
\<close>

lemma autofit_aligned_terminates:
  assumes "font_scale tb = mn + of_nat k / 2" and "delim tb \<noteq> []"
  shows "\<exists>tb' st'. calculate_text_bb be (Suc k) img mx mn r (tb, st) = Inr (tb', st')
           \<and> mn \<le> font_scale tb' \<and> font_scale tb' \<le> font_scale tb"
  using assms
proof (induction k arbitrary: tb st r)
  case 0
  from measure_pass_total[OF "0.prems"(2)] obtain tb1 where p: "measure_pass be img tb = Inr tb1"
    by blast
  have s1: "font_scale tb1 = mn" using measure_pass_fields(1)[OF p] "0.prems"(1) by simp
  have s0: "font_scale tb = mn" using "0.prems"(1) by simp
  from p s1 s0 show ?case by simp
next
  case (Suc k)
  from measure_pass_total[OF Suc.prems(2)] obtain tb1 where p: "measure_pass be img tb = Inr tb1"
    by blast
  have s1: "font_scale tb1 = mn + of_nat (Suc k) / 2"
    using measure_pass_fields(1)[OF p] Suc.prems(1) by simp
  have ne: "font_scale tb1 \<noteq> mn" using s1 by simp
  have ge: "mn \<le> font_scale tb1" using s1 by simp
  have eq: "font_scale tb1 = font_scale tb" by (rule measure_pass_fields(1)[OF p])
  show ?case
  proof (cases "snd (bounding_box tb1) > mx")
    case True
    define tb2 where "tb2 = tb1\<lparr>font_scale := font_scale tb1 - 1 / 2,
        font_width := \<lceil>(font_scale tb1 - 1 / 2) * 3\<rceil>,
        left_margin := left_margin tb, height := 0, width := 0\<rparr>"
    define st1 where
      "st1 = append_log r (ExceededMaximum (name tb1) (font_scale tb1 - 1 / 2)) st"
    have a: "font_scale tb2 = mn + of_nat k / 2"
      using s1 by (simp add: tb2_def field_simps)
    have b: "delim tb2 \<noteq> []"
      using measure_pass_fields(4)[OF p] Suc.prems(2) by (simp add: tb2_def)
    from Suc.IH[OF a b, of Default st1] obtain tb' st' where
      rec: "calculate_text_bb be (Suc k) img mx mn Default (tb2, st1) = Inr (tb', st')"
      and lo: "mn \<le> font_scale tb'" and hi: "font_scale tb' \<le> font_scale tb2"
      by blast
    have "calculate_text_bb be (Suc (Suc k)) img mx mn r (tb, st) =
          calculate_text_bb be (Suc k) img mx mn Default (tb2, st1)"
      using p ne True
      by (subst calculate_text_bb.simps(2))
         (simp add: Let_def tb2_def st1_def del: calculate_text_bb.simps)
    moreover have "font_scale tb2 \<le> font_scale tb" using eq by (simp add: tb2_def)
    ultimately show ?thesis using rec lo hi by auto
  next
    case False
    have "calculate_text_bb be (Suc (Suc k)) img mx mn r (tb, st) = Inr (tb1, st)"
      using p ne False
      by (subst calculate_text_bb.simps(2)) (simp del: calculate_text_bb.simps)
    then show ?thesis using ge eq by simp
  qed
qed

section \<open>The claims\<close>

subsection \<open>Auto-fit\<close>

text \<open>
  Claim C1 says that from every initial scale at or above the floor the auto-fit makes at
  most \<open>\<lceil>(s0 - f) / 0.5\<rceil>\<close> recursive steps and ends at a scale that is not below the
  floor. The code stops only when the scale is equal to the minimum (line 154). A block
  that starts at 3.25 with the minimum 2.5 passes 2.75 and 2.25 without being equal to it:
  with a maximum height of 100 the measurement ends at scale 0.25, after six recursive
  steps; the bound of the claim is two steps, and an interpreter that allows the two
  recursive calls of the bound raises RecursionError.
\<close>

theorem autofit_passes_minimum:
  "map_option font_scale
     (final_box (calculate_text_bb demo_backend 7 create_blank_image 100 (5 / 2) Caller
                   (misaligned_box, empty_store))) = Some (1 / 4)
   \<and> font_scale misaligned_box = 13 / 4
   \<and> \<lceil>(13 / 4 - 5 / 2) / (1 / 2) :: rat\<rceil> = 2
   \<and> calculate_text_bb demo_backend 3 create_blank_image 100 (5 / 2) Caller
        (misaligned_box, empty_store) = Inl RecursionError"
proof -
  have a: "map_option font_scale
     (final_box (calculate_text_bb demo_backend 7 create_blank_image 100 (5 / 2) Caller
                   (misaligned_box, empty_store))) = Some (1 / 4)"
    by code_simp
  have b: "font_scale misaligned_box = 13 / 4"
    by (simp add: misaligned_box_def TextBox_def)
  have c: "\<lceil>(13 / 4 - 5 / 2) / (1 / 2) :: rat\<rceil> = 2"
    by (rule ceiling_unique) simp_all
  have d: "calculate_text_bb demo_backend 3 create_blank_image 100 (5 / 2) Caller
        (misaligned_box, empty_store) = Inl RecursionError"
    by code_simp
  from a b c d show ?thesis by simp
qed

text \<open>
  Claim C7 says that every scale downgrade and every minimum-scale event of a measurement,
  those of the recursive re-measurements included, is one entry, in order, of the log the
  caller receives. The recursive call of line 167 passes no \<open>logs\<close>: its entries go to
  the default list of the function. A block that starts at 3.5 with the minimum 2.5 and a
  maximum height of 100 is downgraded twice and reaches the minimum; the caller's list
  holds the first downgrade only, the second downgrade and the minimum are in the default
  list.
\<close>

theorem recursive_entries_miss_caller_log:
  "map_option caller_logs
     (final_store (calculate_text_bb demo_backend 3 create_blank_image 100 (5 / 2) Caller
                     (tall_box, empty_store)))
     = Some [ExceededMaximum ''Summary Text'' 3]
   \<and> map_option default_logs
     (final_store (calculate_text_bb demo_backend 3 create_blank_image 100 (5 / 2) Caller
                     (tall_box, empty_store)))
     = Some [ExceededMaximum ''Summary Text'' (5 / 2), ReachedMinimum ''Summary Text'']"
proof -
  have a: "map_option caller_logs
     (final_store (calculate_text_bb demo_backend 3 create_blank_image 100 (5 / 2) Caller
                     (tall_box, empty_store)))
     = Some [ExceededMaximum ''Summary Text'' 3]"
    by code_simp
  have b: "map_option default_logs
     (final_store (calculate_text_bb demo_backend 3 create_blank_image 100 (5 / 2) Caller
                     (tall_box, empty_store)))
     = Some [ExceededMaximum ''Summary Text'' (5 / 2), ReachedMinimum ''Summary Text'']"
    by code_simp
  from a b show ?thesis by simp
qed

text \<open>
  Claim C6: a call of \<^verbatim>\<open>calculate_text_bb\<close> that ends at the scale it started with (no
  recursion step ran) adds the freshly computed content height to the height the block
  already had, takes the maximum of the old width and the new one, and builds the bounding
  box from these sums. When the call ends at a lower scale, the block it returns is the
  measurement of a block whose height and width the recursion step had reset to zero.
\<close>

theorem second_call_accumulates:
  assumes "calculate_text_bb be depth img mx mn r (tb, st) = Inr (tb', st')"
    and "0 \<le> width tb"
  shows "(font_scale tb' = font_scale tb \<longrightarrow>
            height tb' = height tb + fst (content_size be img tb)
          \<and> width tb' = max (width tb) (snd (content_size be img tb))
          \<and> bounding_box tb' = (width tb' + 100, height tb' + 80))
       \<and> (font_scale tb' \<noteq> font_scale tb \<longrightarrow>
            (\<exists>tb2. height tb2 = 0 \<and> width tb2 = 0 \<and> measure_pass be img tb2 = Inr tb'
               \<and> (height tb', width tb') = content_size be img tb2))"
proof (intro conjI impI)
  assume same: "font_scale tb' = font_scale tb"
  with calculate_text_bb_cases[OF assms(1)] have p: "measure_pass be img tb = Inr tb'"
    by auto
  show "height tb' = height tb + fst (content_size be img tb)"
    by (rule measure_pass_accumulates(1)[OF assms(2) p])
  show "width tb' = max (width tb) (snd (content_size be img tb))"
    by (rule measure_pass_accumulates(2)[OF assms(2) p])
  show "bounding_box tb' = (width tb' + 100, height tb' + 80)"
    by (rule measure_pass_result(3)[OF p])
next
  assume "font_scale tb' \<noteq> font_scale tb"
  with calculate_text_bb_cases[OF assms(1)] obtain tb2 where
    z: "height tb2 = 0" "width tb2 = 0" and p: "measure_pass be img tb2 = Inr tb'"
    by auto
  have "tb2\<lparr>height := 0, width := 0\<rparr> = tb2" using z by (cases tb2) simp
  with p have "measure_pass be img (tb2\<lparr>height := 0, width := 0\<rparr>) = Inr tb'" by simp
  from content_size_fresh[OF this] z p
  show "\<exists>tb2. height tb2 = 0 \<and> width tb2 = 0 \<and> measure_pass be img tb2 = Inr tb'
               \<and> (height tb', width tb') = content_size be img tb2"
    by blast
qed

theorem second_call_accumulates_witness:
  "\<exists>tb' st'.
     calculate_text_bb demo_backend 1 create_blank_image 1000 (13 / 4) Caller
       (measured_box, empty_store) = Inr (tb', st')
     \<and> 0 \<le> width measured_box
     \<and> font_scale tb' = font_scale measured_box
     \<and> height measured_box = 98
     \<and> fst (content_size demo_backend create_blank_image measured_box) = 98
     \<and> height tb' = 196
     \<and> bounding_box tb' = (425, 276)"
proof -
  have "case calculate_text_bb demo_backend 1 create_blank_image 1000 (13 / 4) Caller
          (measured_box, empty_store) of
          Inl e \<Rightarrow> False
        | Inr (tb', st') \<Rightarrow> font_scale tb' = 13 / 4 \<and> width tb' = 325"
    by code_simp
  then obtain tb' st' where
    e: "calculate_text_bb demo_backend 1 create_blank_image 1000 (13 / 4) Caller
          (measured_box, empty_store) = Inr (tb', st')"
    and s: "font_scale tb' = 13 / 4" and w': "width tb' = 325"
    by (auto split: sum.splits)
  have w: "0 \<le> width measured_box"
    by (simp add: measured_box_def)
  have sc: "font_scale measured_box = 13 / 4"
    by (simp add: measured_box_def misaligned_box_def TextBox_def)
  have h: "height measured_box = 98" by (simp add: measured_box_def)
  have c: "fst (content_size demo_backend create_blank_image measured_box) = 98"
    by code_simp
  from second_call_accumulates[OF e w] s sc h c w'
  have "height tb' = 196" and "bounding_box tb' = (425, 276)" by simp_all
  with e w s sc h c show ?thesis by simp
qed

subsection \<open>Word wrap\<close>




text \<open>
  Claim C3 says that the lines of a paragraph, joined again, give the paragraph's words
  exactly. Line 125 drops the first character of the word it moves to a new line, which
  is the leading space for every word but the first. When the first word of a paragraph
  does not fit, its first letter is dropped: \<open>Hello world\<close> on a line 88 pixels wide
  becomes the lines (empty), \<open>ello\<close>, \<open>world\<close>.
\<close>

theorem first_word_loses_first_character:
  "paragraph_words wide_first_box (tb_text wide_first_box) = [''Hello'', ''world'']
   \<and> map_option paragraphs
       (final_box (calculate_text_bb demo_backend 1 create_blank_image 280 1 Caller
                     (wide_first_box, empty_store)))
     = Some [[[], ''ello'', ''world'']]
   \<and> py_join '' '' [[], ''ello'', ''world''] = '' ello world''
   \<and> py_join '' '' [''Hello'', ''world''] = ''Hello world''"
proof -
  have a: "paragraph_words wide_first_box (tb_text wide_first_box) = [''Hello'', ''world'']"
    by code_simp
  have b: "map_option paragraphs
       (final_box (calculate_text_bb demo_backend 1 create_blank_image 280 1 Caller
                     (wide_first_box, empty_store)))
     = Some [[[], ''ello'', ''world'']]"
    by code_simp
  from a b show ?thesis by simp
qed



end
